theory Spec2Isabelle
  imports Complex_Main "HOL-Library.AList"
begin

section \<open>JavaScript values\<close>

text \<open>
  The frames of the document socket and the bodies of the REST responses are JSON texts;
  the code reads them with \<^verbatim>\<open>JSON.parse\<close> and \<^verbatim>\<open>response.json()\<close> and then works on
  the JavaScript value. A number is an IEEE double: a finite value (always a rational),
  the negative zero, an infinity (\<^verbatim>\<open>JSON.parse("1e999")\<close>) or NaN.
\<close>

datatype jsnum = Num rat | NegZero | PosInfinity | NegInfinity | NaN

datatype jsval =
    JUndefined
  | JNull
  | JBool bool
  | JNumber jsnum
  | JString string
  | JArray "jsval list"
  | JObject "(string \<times> jsval) list"

text \<open>ToBoolean: what \<^verbatim>\<open>||\<close>, \<^verbatim>\<open>?:\<close> and \<^verbatim>\<open>if\<close> test.\<close>

fun truthy :: "jsval \<Rightarrow> bool" where
  "truthy JUndefined = False"
| "truthy JNull = False"
| "truthy (JBool b) = b"
| "truthy (JNumber (Num r)) = (r \<noteq> 0)"
| "truthy (JNumber NegZero) = False"
| "truthy (JNumber NaN) = False"
| "truthy (JNumber PosInfinity) = True"
| "truthy (JNumber NegInfinity) = True"
| "truthy (JString s) = (s \<noteq> [])"
| "truthy (JArray xs) = True"
| "truthy (JObject fs) = True"

text \<open>\<^verbatim>\<open>a || b\<close>: the left operand when it is truthy, the right one otherwise.\<close>

definition js_or :: "jsval \<Rightarrow> jsval \<Rightarrow> jsval" where
  "js_or a b = (if truthy a then a else b)"

text \<open>
  Reading a property throws a TypeError on \<^verbatim>\<open>null\<close> and \<^verbatim>\<open>undefined\<close>; \<open>nullish\<close> is
  that test. On any other value \<^verbatim>\<open>v.k\<close> is the field of an object and \<^verbatim>\<open>undefined\<close>
  when the object has no such field. \<open>js_prop\<close> is used with the keys \<^verbatim>\<open>data\<close> and
  \<^verbatim>\<open>detail\<close> only, which no primitive and no array has. A parsed object lists each key
  once.
\<close>

definition nullish :: "jsval \<Rightarrow> bool" where
  "nullish v = (v = JUndefined \<or> v = JNull)"

fun js_prop :: "jsval \<Rightarrow> string \<Rightarrow> jsval" where
  "js_prop (JObject fs) k = (case map_of fs k of Some v \<Rightarrow> v | None \<Rightarrow> JUndefined)"
| "js_prop v k = JUndefined"

text \<open>Decimal digits of a number, as a template literal prints \<^verbatim>\<open>${n}\<close>.\<close>

fun show_nat :: "nat \<Rightarrow> string" where
  "show_nat n =
     (if n < 10 then [''0123456789'' ! n]
      else show_nat (n div 10) @ [''0123456789'' ! (n mod 10)])"

declare show_nat.simps [simp del]

section \<open>Observable effects\<close>

text \<open>
  A callback handed to the service is a function of the caller; the model names it by a
  handle and records each call with its argument. Console output is recorded by its
  first argument (the message); the structured second argument (timestamps, durations)
  is left out. A request handed to \<^verbatim>\<open>fetch\<close> is recorded with its method, URL, headers
  and the value that was given to \<^verbatim>\<open>JSON.stringify\<close> for the body.
\<close>

type_synonym callback = nat

record request =
  req_method :: string
  req_url :: string
  req_headers :: "(string \<times> string) list"
  req_body :: "jsval option"

datatype effect =
    ConsoleLog string
  | ConsoleError string
  | CallOnUpdate callback jsval
  | CallOnError callback jsval
  | Fetch request

text \<open>
  What is thrown, or what a promise rejects with: an \<^verbatim>\<open>Error\<close> made by the service (with
  the value given to its constructor), the TypeError of reading a property of \<^verbatim>\<open>null\<close>,
  the SyntaxError of \<^verbatim>\<open>response.json()\<close> on a body that is no JSON or of
  \<^verbatim>\<open>new WebSocket(url)\<close> on a URL it refuses, or whatever \<^verbatim>\<open>fetch\<close> itself rejects with.
\<close>

datatype jserror = Error jsval | TypeError | SyntaxError | FetchFailed string

section \<open>ApiService: the document sockets\<close>

text \<open>
  \<^verbatim>\<open>WebSocket\<close> is the browser's class. Its objects are shared between the registry
  \<^verbatim>\<open>this.websockets\<close>, the caller (who gets the object back) and the browser, so they
  live in a store: the address of a socket is its index in \<open>heap\<close>. A socket carries its
  URL, its \<^verbatim>\<open>readyState\<close>, and the variables its four handlers close over.
\<close>

datatype readyState = CONNECTING | OPEN | CLOSING | CLOSED

record websocket =
  url :: string
  readyState :: readyState
  ws_arxivId :: string
  ws_version :: string
  ws_onUpdate :: callback
  ws_onError :: "callback option"

record state =
  websockets :: "(string \<times> nat) list"
  heap :: "websocket list"
  out :: "effect list"

text \<open>
  \<^verbatim>\<open>ws.close()\<close> returns at once: a socket that is connecting or open starts closing, a
  socket that is closing or closed is left as it is. No handler runs inside the call;
  the browser delivers the close event later, as a task of its own.
\<close>

definition close_ws :: "websocket \<Rightarrow> websocket" where
  "close_ws w =
     (if readyState w = CLOSING \<or> readyState w = CLOSED then w
      else w\<lparr>readyState := CLOSING\<rparr>)"

definition close_at :: "nat \<Rightarrow> websocket list \<Rightarrow> websocket list" where
  "close_at a h = h[a := close_ws (h ! a)]"

definition wsKey :: "string \<Rightarrow> string \<Rightarrow> string" where
  "wsKey arxivId version = arxivId @ ''_'' @ version"

definition for_paper :: "string \<Rightarrow> string \<Rightarrow> string" where
  "for_paper arxivId version = arxivId @ '' v'' @ version"

text \<open>
  \<^verbatim>\<open>connectDocumentSocket(arxivId, version, onUpdate, onError)\<close>, with \<open>base\<close> the
  service's \<^verbatim>\<open>wsUrl\<close>. \<open>new_WebSocket\<close> is the browser's constructor: \<open>Inl e\<close> where it
  throws \<open>e\<close> (a SyntaxError for a URL that does not parse, has a scheme other than
  \<^verbatim>\<open>ws\<close>/\<^verbatim>\<open>wss\<close> or has a fragment), \<open>Inr u\<close> where it makes a socket, \<open>u\<close> being the
  parsed URL the socket shows as \<^verbatim>\<open>ws.url\<close>. The call stands in no \<^verbatim>\<open>try\<close>: an exception
  of the constructor leaves the method after the old socket was closed and before
  anything is registered. The result is the new socket (its address) or the exception,
  and the state after the call. The registry is a JavaScript Map: \<^verbatim>\<open>set\<close> replaces the
  value of a key that is present and appends a new key otherwise.
\<close>

definition connectDocumentSocket ::
  "(string \<Rightarrow> jserror + string) \<Rightarrow> string \<Rightarrow> state \<Rightarrow> string \<Rightarrow> string \<Rightarrow> callback \<Rightarrow>
     callback option \<Rightarrow> (jserror + nat) \<times> state" where
  "connectDocumentSocket new_WebSocket base st arxivId version onUpdate onError =
     (let key = wsKey arxivId version;
          wsUrl = base @ ''/ws/'' @ arxivId @ ''/'' @ version;
          st1 = (case map_of (websockets st) key of
                   Some old \<Rightarrow>
                     st\<lparr>heap := close_at old (heap st),
                        out := out st @
                          [ConsoleLog (''[WebSocket] Closing existing connection for '' @
                             for_paper arxivId version)]\<rparr>
                 | None \<Rightarrow> st);
          st2 = st1\<lparr>out := out st1 @
                       [ConsoleLog (''[WebSocket] Creating new connection for '' @
                          for_paper arxivId version @ '':'')]\<rparr>
      in case new_WebSocket wsUrl of
           Inl e \<Rightarrow> (Inl e, st2)
         | Inr parsed \<Rightarrow>
             (let ws = length (heap st2);
                  st3 = st2\<lparr>heap := heap st2 @
                               [\<lparr>url = parsed, readyState = CONNECTING, ws_arxivId = arxivId,
                                 ws_version = version, ws_onUpdate = onUpdate,
                                 ws_onError = onError\<rparr>]\<rparr>;
                  st4 = st3\<lparr>websockets := AList.update key ws (websockets st3)\<rparr>
              in (Inr ws, st4\<lparr>out := out st4 @
                    [ConsoleLog (''[WebSocket] WebSocket registered in map: '' @ key @
                       '' | Total active connections: '' @
                       show_nat (length (websockets st4)))]\<rparr>)))"

text \<open>\<^verbatim>\<open>closeAllWebSockets()\<close>: close every registered socket, then clear the registry.\<close>

definition closeAllWebSockets :: "state \<Rightarrow> state" where
  "closeAllWebSockets st =
     st\<lparr>heap := foldl (\<lambda>h (k, a). close_at a h) (heap st) (websockets st),
        websockets := []\<rparr>"

subsection \<open>The handlers of a socket\<close>

text \<open>
  \<^verbatim>\<open>ws.onmessage\<close>, for the socket \<open>w\<close> and the frame's text \<open>raw\<close>; \<open>parse\<close> is
  \<^verbatim>\<open>JSON.parse\<close> (\<open>None\<close> where it throws a SyntaxError). The whole body stands in one
  \<^verbatim>\<open>try\<close>: the SyntaxError of the parser and the TypeError of reading
  \<^verbatim>\<open>message.paper_id\<close> on \<^verbatim>\<open>null\<close> both end in the \<^verbatim>\<open>catch\<close>, which writes to the console.
  The callback is taken to return normally.
\<close>

definition onmessage :: "(string \<Rightarrow> jsval option) \<Rightarrow> websocket \<Rightarrow> string \<Rightarrow> effect list" where
  "onmessage parse w raw =
     ConsoleLog (''[WebSocket] Message received for '' @
        for_paper (ws_arxivId w) (ws_version w) @ '':'') #
     (case parse raw of
        None \<Rightarrow>
          [ConsoleError (''[WebSocket] Failed to parse message for '' @
             for_paper (ws_arxivId w) (ws_version w) @ '':'')]
      | Some message \<Rightarrow>
          if nullish message then
            [ConsoleError (''[WebSocket] Failed to parse message for '' @
               for_paper (ws_arxivId w) (ws_version w) @ '':'')]
          else
            [ConsoleLog ''[WebSocket] Parsed message:'',
             CallOnUpdate (ws_onUpdate w) (js_or (js_prop message ''data'') message)])"

text \<open>\<^verbatim>\<open>ws.onerror\<close>: log, then hand the event to \<^verbatim>\<open>onError\<close> when the caller gave one.\<close>

definition onerror :: "websocket \<Rightarrow> jsval \<Rightarrow> effect list" where
  "onerror w error =
     ConsoleError (''[WebSocket] Error for '' @
        for_paper (ws_arxivId w) (ws_version w) @ '':'') #
     (case ws_onError w of Some cb \<Rightarrow> [CallOnError cb error] | None \<Rightarrow> [])"

text \<open>
  The events the browser delivers to a socket, each a task of its own. Before it
  calls the handler the browser moves the socket to \<^verbatim>\<open>OPEN\<close> on an open event and to
  \<^verbatim>\<open>CLOSED\<close> on a close event. \<^verbatim>\<open>ws.onclose\<close> removes whatever the registry holds
  under the socket's key. An event for an address that holds no socket is none. Which
  events come, and when, is the browser's matter (an open event to a connecting socket,
  a message to an open one, one close event after \<^verbatim>\<open>close()\<close> or a failure); \<open>deliver\<close>
  says what the handlers do when one comes.
\<close>

datatype event = EvOpen nat | EvMessage nat string | EvError nat jsval | EvClose nat

fun deliver :: "(string \<Rightarrow> jsval option) \<Rightarrow> state \<Rightarrow> event \<Rightarrow> state" where
  "deliver parse st (EvOpen a) =
     (if a < length (heap st) then
        st\<lparr>heap := (heap st)[a := (heap st ! a)\<lparr>readyState := OPEN\<rparr>],
           out := out st @
             [ConsoleLog (''[WebSocket] Connected for '' @
                for_paper (ws_arxivId (heap st ! a)) (ws_version (heap st ! a)))]\<rparr>
      else st)"
| "deliver parse st (EvMessage a raw) =
     (if a < length (heap st) then
        st\<lparr>out := out st @ onmessage parse (heap st ! a) raw\<rparr>
      else st)"
| "deliver parse st (EvError a error) =
     (if a < length (heap st) then
        st\<lparr>out := out st @ onerror (heap st ! a) error\<rparr>
      else st)"
| "deliver parse st (EvClose a) =
     (if a < length (heap st) then
        st\<lparr>heap := (heap st)[a := (heap st ! a)\<lparr>readyState := CLOSED\<rparr>],
           out := out st @
             [ConsoleLog (''[WebSocket] Closed for '' @
                for_paper (ws_arxivId (heap st ! a)) (ws_version (heap st ! a)) @ '':'')],
           websockets :=
             AList.delete (wsKey (ws_arxivId (heap st ! a)) (ws_version (heap st ! a)))
               (websockets st)\<rparr>
      else st)"

text \<open>
  What happens to the service, in order: calls of its two socket methods by the
  application, and events delivered by the browser between them. A call of
  \<^verbatim>\<open>connectDocumentSocket\<close> that throws leaves the state it had reached.
\<close>

datatype action =
    Connect string string callback "callback option"
  | CloseAll
  | Deliver event

fun step ::
  "(string \<Rightarrow> jserror + string) \<Rightarrow> (string \<Rightarrow> jsval option) \<Rightarrow> string \<Rightarrow> state \<Rightarrow> action \<Rightarrow> state" where
  "step new_WebSocket parse base st (Connect arxivId version onUpdate onError) =
     snd (connectDocumentSocket new_WebSocket base st arxivId version onUpdate onError)"
| "step new_WebSocket parse base st CloseAll = closeAllWebSockets st"
| "step new_WebSocket parse base st (Deliver e) = deliver parse st e"

definition run ::
  "(string \<Rightarrow> jserror + string) \<Rightarrow> (string \<Rightarrow> jsval option) \<Rightarrow> string \<Rightarrow> state \<Rightarrow> action list \<Rightarrow>
     state" where
  "run new_WebSocket parse base st acts = foldl (step new_WebSocket parse base) st acts"

definition init :: state where
  "init = \<lparr>websockets = [], heap = [], out = []\<rparr>"

text \<open>A socket counts as open until \<^verbatim>\<open>close()\<close> was called on it or it was closed.\<close>

definition is_open :: "websocket \<Rightarrow> bool" where
  "is_open w = (readyState w = CONNECTING \<or> readyState w = OPEN)"

text \<open>
  Every registered address holds a socket. JavaScript gives this for free (the Map holds
  the objects themselves); in the store it is an invariant of the reachable states.
\<close>

definition wf :: "state \<Rightarrow> bool" where
  "wf st = list_all (\<lambda>(k, a). a < length (heap st)) (websockets st)"

text \<open>
  Of the sockets created from address \<open>n\<close> on, the last one is registered under \<open>key\<close> and
  open, and all the others are not open.
\<close>

definition last_wins :: "nat \<Rightarrow> string \<Rightarrow> state \<Rightarrow> bool" where
  "last_wins n key st =
     (n < length (heap st) \<and>
      map_of (websockets st) key = Some (length (heap st) - 1) \<and>
      is_open (heap st ! (length (heap st) - 1)) \<and>
      list_all (\<lambda>a. \<not> is_open (heap st ! a)) [n ..< length (heap st) - 1])"

section \<open>ApiService: the REST calls\<close>

record response =
  resp_ok :: bool
  resp_status :: nat
  resp_statusText :: string
  resp_json :: "jsval option"

text \<open>
  \<^verbatim>\<open>fetchApi(endpoint, options)\<close>. \<open>fetch\<close> is the network: how the browser's
  \<^verbatim>\<open>fetch\<close> settles for a request. \<open>method\<close> and \<open>body\<close> are the two options the callers
  set. The result is the effects of the call and what its promise settles to.
\<close>

definition fetchApi ::
  "string \<Rightarrow> (request \<Rightarrow> jserror + response) \<Rightarrow> string \<Rightarrow> string option \<Rightarrow> jsval option \<Rightarrow>
     effect list \<times> (jserror + response)" where
  "fetchApi baseUrl fetch endpoint method body =
     (let shown = (case method of Some m \<Rightarrow> if m = [] then ''GET'' else m | None \<Rightarrow> ''GET'');
          req = \<lparr>req_method = (case method of Some m \<Rightarrow> m | None \<Rightarrow> ''GET''),
                 req_url = baseUrl @ endpoint,
                 req_headers = [(''Content-Type'', ''application/json'')],
                 req_body = body\<rparr>;
          start = [ConsoleLog (''[API] '' @ shown @ '' '' @ endpoint), Fetch req];
          caught = ConsoleError (''[API] '' @ shown @ '' '' @ endpoint @ '' error:'')
      in case fetch req of
           Inl e \<Rightarrow> (start @ [caught], Inl e)
         | Inr r \<Rightarrow>
             if resp_ok r then
               (start @ [ConsoleLog (''[API] '' @ shown @ '' '' @ endpoint @ '' success:'')], Inr r)
             else
               (let error = (case resp_json r of
                               Some v \<Rightarrow> v
                             | None \<Rightarrow> JObject [(''detail'', JString (resp_statusText r))])
                in (start @
                      [ConsoleError (''[API] '' @ shown @ '' '' @ endpoint @ '' failed:''), caught],
                    Inl (if nullish error then TypeError
                         else Error (js_or (js_prop error ''detail'')
                                (JString (''HTTP '' @ show_nat (resp_status r) @ '': '' @
                                   resp_statusText r)))))))"

text \<open>
  \<^verbatim>\<open>await response.json()\<close> after \<^verbatim>\<open>await this.fetchApi(...)\<close>: a rejection of either is
  the rejection of the caller; \<open>after\<close> is what the caller logs once it has the value.
\<close>

definition await_json ::
  "effect list \<times> (jserror + response) \<Rightarrow> effect list \<Rightarrow> effect list \<times> (jserror + jsval)" where
  "await_json call after =
     (case snd call of
        Inl e \<Rightarrow> (fst call, Inl e)
      | Inr r \<Rightarrow>
          (case resp_json r of
             None \<Rightarrow> (fst call, Inl SyntaxError)
           | Some result \<Rightarrow> (fst call @ after, Inr result)))"

definition requestPaperImport ::
  "string \<Rightarrow> (request \<Rightarrow> jserror + response) \<Rightarrow> string \<Rightarrow> effect list \<times> (jserror + jsval)" where
  "requestPaperImport baseUrl fetch arxivId =
     (let r = await_json
                (fetchApi baseUrl fetch ''/api/papers/import'' (Some ''POST'')
                   (Some (JObject [(''arxiv_id'', JString arxivId)])))
                [ConsoleLog (''[API] Paper import response for '' @ arxivId @ '':'')]
      in (ConsoleLog (''[API] Requesting paper import for '' @ arxivId) # fst r, snd r))"

definition getMetadata ::
  "string \<Rightarrow> (request \<Rightarrow> jserror + response) \<Rightarrow> string \<Rightarrow> effect list \<times> (jserror + jsval)" where
  "getMetadata baseUrl fetch arxivId =
     (let r = await_json (fetchApi baseUrl fetch (''/api/metadata/'' @ arxivId) None None)
                [ConsoleLog (''[API] Metadata response for '' @ arxivId @ '':'')]
      in (ConsoleLog (''[API] Fetching metadata for '' @ arxivId) # fst r, snd r))"

definition getDocument ::
  "string \<Rightarrow> (request \<Rightarrow> jserror + response) \<Rightarrow> string \<Rightarrow> string \<Rightarrow>
     effect list \<times> (jserror + jsval)" where
  "getDocument baseUrl fetch arxivId version =
     (let r = await_json
                (fetchApi baseUrl fetch (''/api/documents/'' @ arxivId @ ''/'' @ version) None None)
                [ConsoleLog (''[API] Document response for '' @ for_paper arxivId version @ '':'')]
      in (ConsoleLog (''[API] Fetching document '' @ for_paper arxivId version) # fst r, snd r))"

definition getImportStatus ::
  "string \<Rightarrow> (request \<Rightarrow> jserror + response) \<Rightarrow> string \<Rightarrow> string \<Rightarrow>
     effect list \<times> (jserror + jsval)" where
  "getImportStatus baseUrl fetch arxivId version =
     await_json
       (fetchApi baseUrl fetch (''/api/papers/status/'' @ arxivId @ ''/'' @ version) None None) []"

text \<open>The callable of \<^verbatim>\<open>shared/api_callables.ts\<close>: it hands its argument on.\<close>

definition requestArxivDocImportCallable ::
  "string \<Rightarrow> (request \<Rightarrow> jserror + response) \<Rightarrow> string \<Rightarrow> effect list \<times> (jserror + jsval)" where
  "requestArxivDocImportCallable baseUrl fetch arxivId = requestPaperImport baseUrl fetch arxivId"

section \<open>HomeService\<close>

text \<open>
  \<^verbatim>\<open>ArxivMetadata\<close>, \<^verbatim>\<open>ArxivCollection\<close>, \<^verbatim>\<open>FeaturedImage\<close> and \<^verbatim>\<open>PaperData\<close> are declared in
  \<^verbatim>\<open>shared/\<close>, and \<^verbatim>\<open>HistoryService\<close> in \<^verbatim>\<open>services/\<close>, outside the files at hand. The
  records hold the fields HomeService reads; the rest of a metadata object is one opaque
  value. The history service is read through its two methods, \<^verbatim>\<open>getPaperHistory()\<close>
  and \<^verbatim>\<open>getPaperData(id)\<close> (\<open>None\<close> for \<^verbatim>\<open>undefined\<close>).
\<close>

record arxivMetadata =
  paperId :: string
  details :: jsval

record arxivCollection =
  collectionId :: string
  paperIds :: "string list"

record paperData =
  metadata :: "arxivMetadata option"

record historyService =
  getPaperHistory :: "paperData list"
  getPaperData :: "string \<Rightarrow> paperData option"

record homeService =
  collections :: "arxivCollection list"
  hasLoadedCollections :: bool
  isLoadingCollections :: bool
  paperToMetadataMap :: "string \<rightharpoonup> arxivMetadata"
  paperToFeaturedImageMap :: "string \<rightharpoonup> jsval"
  currentCollection :: "arxivCollection option"
  showUploadDialog :: bool

text \<open>\<^verbatim>\<open>paperData?.metadata\<close> for \<^verbatim>\<open>paperData = getPaperData(paperId)\<close>; \<open>pid\<close> is the paper id.\<close>

definition local_metadata :: "historyService \<Rightarrow> string \<Rightarrow> arxivMetadata option" where
  "local_metadata hs pid =
     (case getPaperData hs pid of None \<Rightarrow> None | Some paperData \<Rightarrow> metadata paperData)"

text \<open>
  One round of the loop of \<^verbatim>\<open>loadMetadata\<close>, on the service and the effects so far. A
  paper id that is empty, or one the map already has (unless \<open>forceReload\<close>), is skipped
  by \<^verbatim>\<open>continue\<close>; metadata found in the local history is stored; for anything else the
  round only logs that the fetch is skipped.
\<close>

definition load_one ::
  "historyService \<Rightarrow> bool \<Rightarrow> homeService \<times> effect list \<Rightarrow> string \<Rightarrow> homeService \<times> effect list" where
  "load_one hs forceReload acc pid =
     (if pid = [] \<or> (paperToMetadataMap (fst acc) pid \<noteq> None \<and> \<not> forceReload) then acc
      else case local_metadata hs pid of
             Some m \<Rightarrow>
               ((fst acc)\<lparr>paperToMetadataMap := (paperToMetadataMap (fst acc))(pid \<mapsto> m)\<rparr>,
                snd acc @
                  [ConsoleLog (''[HomeService] Loaded metadata for '' @ pid @
                     '' from local storage'')])
           | None \<Rightarrow>
               (fst acc,
                snd acc @
                  [ConsoleLog (''[HomeService] Skipping Firebase metadata fetch for '' @ pid @
                     '' (use API backend instead)'')]))"

text \<open>
  \<^verbatim>\<open>loadMetadata(paperIds, forceReload)\<close>. The body has no \<^verbatim>\<open>await\<close>: the whole loop runs
  inside the call.
\<close>

definition loadMetadata ::
  "historyService \<Rightarrow> homeService \<Rightarrow> string list \<Rightarrow> bool \<Rightarrow> homeService \<times> effect list" where
  "loadMetadata hs s ids forceReload = foldl (load_one hs forceReload) (s, []) ids"

text \<open>\<^verbatim>\<open>setCurrentCollection(currentCollectionId)\<close>.\<close>

definition setCurrentCollection ::
  "historyService \<Rightarrow> homeService \<Rightarrow> string option \<Rightarrow> homeService \<times> effect list" where
  "setCurrentCollection hs s currentCollectionId =
     (let s1 = s\<lparr>currentCollection := None\<rparr>;
          localPaperIds =
            List.map_filter (\<lambda>item. map_option paperId (metadata item)) (getPaperHistory hs);
          r = loadMetadata hs s1 localPaperIds False
      in (fst r,
          [ConsoleLog ''[HomeService] Loading papers from local storage (localStorage)'',
           ConsoleLog (''[HomeService] Found '' @ show_nat (length localPaperIds) @
              '' papers in local storage'')] @ snd r))"

text \<open>The getter \<^verbatim>\<open>currentCollectionId\<close>: \<^verbatim>\<open>this.currentCollection?.collectionId\<close>.\<close>

definition currentCollectionId :: "homeService \<Rightarrow> string option" where
  "currentCollectionId s = map_option collectionId (currentCollection s)"

section \<open>Facts about the model\<close>

subsection \<open>The registry and the store\<close>

lemma length_close_at [simp]: "length (close_at a h) = length h"
  by (simp add: close_at_def)

lemma close_ws_not_open [simp]: "\<not> is_open (close_ws w)"
  by (cases "readyState w") (simp_all add: close_ws_def is_open_def)

lemma close_at_keeps_closed:
  "a < length h \<Longrightarrow> \<not> is_open (h ! a) \<Longrightarrow> \<not> is_open (close_at b h ! a)"
  by (cases "a = b") (simp_all add: close_at_def)

lemma close_at_closes: "a < length h \<Longrightarrow> \<not> is_open (close_at a h ! a)"
  by (simp add: close_at_def)

lemma length_close_all [simp]:
  "length (foldl (\<lambda>h (k, a). close_at a h) h ws) = length h"
  by (induction ws arbitrary: h) (simp_all add: case_prod_beta)

lemma close_all_keeps_closed:
  "a < length h \<Longrightarrow> \<not> is_open (h ! a) \<Longrightarrow>
     \<not> is_open (foldl (\<lambda>h (k, a). close_at a h) h ws ! a)"
proof (induction ws arbitrary: h)
  case Nil
  then show ?case by simp
next
  case (Cons p ws)
  have "\<not> is_open (close_at (snd p) h ! a)"
    using Cons.prems by (rule close_at_keeps_closed)
  then show ?case
    using Cons.IH [of "close_at (snd p) h"] Cons.prems(1) by (simp add: case_prod_beta)
qed

lemma close_all_closes:
  "(k, a) \<in> set ws \<Longrightarrow> a < length h \<Longrightarrow>
     \<not> is_open (foldl (\<lambda>h (k, a). close_at a h) h ws ! a)"
proof (induction ws arbitrary: h)
  case Nil
  then show ?case by simp
next
  case (Cons p ws)
  show ?case
  proof (cases "p = (k, a)")
    case True
    have "\<not> is_open (close_at a h ! a)"
      using Cons.prems(2) by (rule close_at_closes)
    then have "\<not> is_open (foldl (\<lambda>h (k, a). close_at a h) (close_at a h) ws ! a)"
      using close_all_keeps_closed [of a "close_at a h" ws] Cons.prems(2) by simp
    then show ?thesis using True by simp
  next
    case False
    then have "(k, a) \<in> set ws" using Cons.prems(1) by simp
    then show ?thesis
      using Cons.IH [of "close_at (snd p) h"] Cons.prems(2) by (simp add: case_prod_beta)
  qed
qed

lemma wf_registered: "wf st \<Longrightarrow> map_of (websockets st) k = Some a \<Longrightarrow> a < length (heap st)"
  by (auto simp: wf_def list_all_iff dest: map_of_SomeD)

lemma set_update_subset: "set (AList.update k v al) \<subseteq> insert (k, v) (set al)"
  by (induction al) auto

lemma set_delete_subset: "set (AList.delete k al) \<subseteq> set al"
  by (auto simp: AList.delete_eq)

lemma wf_init: "wf init"
  by (simp add: wf_def init_def)

lemma connect_heap:
  "heap (snd (connectDocumentSocket new_WebSocket base st arxivId version u e)) =
     (case map_of (websockets st) (wsKey arxivId version) of
        Some old \<Rightarrow> close_at old (heap st) | None \<Rightarrow> heap st) @
     (case new_WebSocket (base @ ''/ws/'' @ arxivId @ ''/'' @ version) of
        Inl err \<Rightarrow> []
      | Inr parsed \<Rightarrow>
          [\<lparr>url = parsed, readyState = CONNECTING, ws_arxivId = arxivId,
            ws_version = version, ws_onUpdate = u, ws_onError = e\<rparr>])"
  by (simp add: connectDocumentSocket_def Let_def split: option.splits sum.splits)

lemma connect_websockets:
  "websockets (snd (connectDocumentSocket new_WebSocket base st arxivId version u e)) =
     (case new_WebSocket (base @ ''/ws/'' @ arxivId @ ''/'' @ version) of
        Inl err \<Rightarrow> websockets st
      | Inr parsed \<Rightarrow> AList.update (wsKey arxivId version) (length (heap st)) (websockets st))"
  by (simp add: connectDocumentSocket_def Let_def split: option.splits sum.splits)

lemma connect_result:
  "fst (connectDocumentSocket new_WebSocket base st arxivId version u e) =
     (case new_WebSocket (base @ ''/ws/'' @ arxivId @ ''/'' @ version) of
        Inl err \<Rightarrow> Inl err
      | Inr parsed \<Rightarrow> Inr (length (heap st)))"
  by (simp add: connectDocumentSocket_def Let_def split: option.splits sum.splits)


lemma connect_length:
  "new_WebSocket (base @ ''/ws/'' @ arxivId @ ''/'' @ version) = Inr parsed \<Longrightarrow>
     length (heap (snd (connectDocumentSocket new_WebSocket base st arxivId version u e))) =
       Suc (length (heap st))"
  by (simp add: connect_heap split: option.splits)

lemma connect_new_open:
  "new_WebSocket (base @ ''/ws/'' @ arxivId @ ''/'' @ version) = Inr parsed \<Longrightarrow>
     is_open (heap (snd (connectDocumentSocket new_WebSocket base st arxivId version u e)) !
                length (heap st))"
  by (simp add: connect_heap is_open_def nth_append split: option.splits)

lemma connect_keeps_closed:
  "a < length (heap st) \<Longrightarrow> \<not> is_open (heap st ! a) \<Longrightarrow>
     \<not> is_open (heap (snd (connectDocumentSocket new_WebSocket base st arxivId version u e)) ! a)"
  by (simp add: connect_heap nth_append close_at_keeps_closed split: option.splits sum.splits)

lemma connect_closes_registered:
  "wf st \<Longrightarrow> map_of (websockets st) (wsKey arxivId version) = Some old \<Longrightarrow>
     \<not> is_open (heap (snd (connectDocumentSocket new_WebSocket base st arxivId version u e)) ! old)"
  using wf_registered [of st "wsKey arxivId version" old]
  by (simp add: connect_heap nth_append close_at_closes split: sum.splits)

lemma wf_connect:
  assumes "wf st"
  shows "wf (snd (connectDocumentSocket new_WebSocket base st arxivId version u e))"
proof (cases "new_WebSocket (base @ ''/ws/'' @ arxivId @ ''/'' @ version)")
  case (Inl err)
  then show ?thesis
    using assms by (auto simp: wf_def list_all_iff connect_websockets connect_heap split: option.splits)
next
  case (Inr parsed)
  have "a < Suc (length (heap st))"
    if "(k, a) \<in> set (AList.update (wsKey arxivId version) (length (heap st)) (websockets st))"
    for k a
  proof -
    have "(k, a) = (wsKey arxivId version, length (heap st)) \<or> (k, a) \<in> set (websockets st)"
      using that set_update_subset by fastforce
    then show ?thesis
      using assms by (auto simp: wf_def list_all_iff)
  qed
  then show ?thesis
    using Inr by (auto simp: wf_def list_all_iff connect_websockets connect_length)
qed

lemma wf_closeAll: "wf (closeAllWebSockets st)"
  by (simp add: wf_def closeAllWebSockets_def)

lemma wf_deliver: "wf st \<Longrightarrow> wf (deliver parse st e)"
proof (cases e)
  case (EvClose a)
  assume "wf st"
  then show ?thesis
    using EvClose set_delete_subset by (fastforce simp: wf_def list_all_iff)
qed (auto simp: wf_def list_all_iff)

lemma wf_step: "wf st \<Longrightarrow> wf (step new_WebSocket parse base st act)"
  by (cases act) (simp_all add: wf_connect wf_closeAll wf_deliver)

lemma wf_run: "wf st \<Longrightarrow> wf (run new_WebSocket parse base st acts)"
  unfolding run_def by (induction acts arbitrary: st) (simp_all add: wf_step)

text \<open>One call after another, with no event delivered in between: the last call wins.\<close>

lemma connect_first:
  assumes "wf st"
    and "new_WebSocket (base @ ''/ws/'' @ arxivId @ ''/'' @ version) = Inr parsed"
  shows "last_wins (length (heap st)) (wsKey arxivId version)
           (snd (connectDocumentSocket new_WebSocket base st arxivId version u e))"
  using assms(2)
  by (simp add: last_wins_def connect_length connect_websockets connect_new_open update_conv')

lemma connect_next:
  assumes "wf st" and "last_wins n (wsKey arxivId version) st"
    and "new_WebSocket (base @ ''/ws/'' @ arxivId @ ''/'' @ version) = Inr parsed"
  shows "last_wins n (wsKey arxivId version)
           (snd (connectDocumentSocket new_WebSocket base st arxivId version u e))"
proof -
  let ?st' = "snd (connectDocumentSocket new_WebSocket base st arxivId version u e)"
  let ?m = "length (heap st)"
  have n: "n < ?m" and reg: "map_of (websockets st) (wsKey arxivId version) = Some (?m - 1)"
    and closed: "\<And>a. n \<le> a \<Longrightarrow> a < ?m - 1 \<Longrightarrow> \<not> is_open (heap st ! a)"
    using assms(2) by (auto simp: last_wins_def list_all_iff)
  have "\<not> is_open (heap ?st' ! a)" if "n \<le> a" and "a < ?m" for a
  proof (cases "a = ?m - 1")
    case True
    then show ?thesis using connect_closes_registered [OF assms(1) reg] by simp
  next
    case False
    then have "a < ?m - 1" using that by simp
    then show ?thesis using closed [OF that(1)] that(2) by (simp add: connect_keeps_closed)
  qed
  then show ?thesis
    using n assms(3)
    by (simp add: last_wins_def connect_length connect_websockets connect_new_open
        update_conv' list_all_iff)
qed

lemma connect_calls_last_wins:
  assumes "wf st"
    and "new_WebSocket (base @ ''/ws/'' @ arxivId @ ''/'' @ version) = Inr parsed"
  shows "last_wins (length (heap st)) (wsKey arxivId version)
           (foldl (\<lambda>s c. snd (connectDocumentSocket new_WebSocket base s arxivId version
                                 (fst c) (snd c)))
              st (c # cs))"
proof -
  have "wf s \<and> last_wins n (wsKey arxivId version) s \<Longrightarrow>
        last_wins n (wsKey arxivId version)
          (foldl (\<lambda>s c. snd (connectDocumentSocket new_WebSocket base s arxivId version
                                (fst c) (snd c))) s cs)"
    for s n
    using assms(2) by (induction cs arbitrary: s) (simp_all add: connect_next wf_connect)
  then show ?thesis
    using assms by (simp add: connect_first wf_connect)
qed


subsection \<open>The message handler\<close>

lemma deliver_messages_frame:
  "websockets (foldl (deliver parse) st (map (EvMessage a) raws)) = websockets st \<and>
   heap (foldl (deliver parse) st (map (EvMessage a) raws)) = heap st"
  by (induction raws arbitrary: st) simp_all

subsection \<open>The REST calls\<close>

lemma fetchApi_issues:
  "Fetch \<lparr>req_method = (case method of Some m \<Rightarrow> m | None \<Rightarrow> ''GET''),
          req_url = baseUrl @ endpoint,
          req_headers = [(''Content-Type'', ''application/json'')],
          req_body = body\<rparr>
     \<in> set (fst (fetchApi baseUrl fetch endpoint method body))"
  by (simp add: fetchApi_def Let_def split: sum.splits)

lemma await_json_keeps: "x \<in> set (fst call) \<Longrightarrow> x \<in> set (fst (await_json call after))"
  by (simp add: await_json_def split: sum.splits option.splits)

subsection \<open>HomeService\<close>

lemma load_one_map:
  "paperToMetadataMap (fst (load_one hs f acc p)) i =
     (case local_metadata hs i of
        Some m \<Rightarrow> if i = p \<and> i \<noteq> [] \<and> (paperToMetadataMap (fst acc) i = None \<or> f) then Some m
                  else paperToMetadataMap (fst acc) i
      | None \<Rightarrow> paperToMetadataMap (fst acc) i)"
  by (auto simp: load_one_def split: option.splits)

lemma load_all_map:
  "paperToMetadataMap (fst (foldl (load_one hs f) acc ids)) i =
     (case local_metadata hs i of
        Some m \<Rightarrow> if i \<in> set ids \<and> i \<noteq> [] \<and> (paperToMetadataMap (fst acc) i = None \<or> f) then Some m
                  else paperToMetadataMap (fst acc) i
      | None \<Rightarrow> paperToMetadataMap (fst acc) i)"
proof (induction ids arbitrary: acc)
  case Nil
  then show ?case by (simp split: option.splits)
next
  case (Cons p ids)
  show ?case
    using Cons.IH [of "load_one hs f acc p"] load_one_map [of hs f acc p i]
    by (auto split: option.splits if_splits)
qed

lemma load_all_current:
  "currentCollection (fst (foldl (load_one hs f) acc ids)) = currentCollection (fst acc)"
proof (induction ids arbitrary: acc)
  case Nil
  then show ?case by simp
next
  case (Cons p ids)
  have "currentCollection (fst (load_one hs f acc p)) = currentCollection (fst acc)"
    by (simp add: load_one_def split: option.splits)
  then show ?case using Cons.IH [of "load_one hs f acc p"] by simp
qed

lemma load_one_no_fetch:
  "Fetch r \<notin> set (snd acc) \<Longrightarrow> Fetch r \<notin> set (snd (load_one hs f acc p))"
  by (simp add: load_one_def split: option.splits)

lemma load_all_no_fetch:
  "Fetch r \<notin> set (snd acc) \<Longrightarrow> Fetch r \<notin> set (snd (foldl (load_one hs f) acc ids))"
  by (induction ids arbitrary: acc) (simp_all add: load_one_no_fetch)

lemma load_one_skip_log:
  "ConsoleLog (''[HomeService] Skipping Firebase metadata fetch for '' @ i @
       '' (use API backend instead)'') \<in> set (snd (load_one hs f acc p)) \<longleftrightarrow>
     ConsoleLog (''[HomeService] Skipping Firebase metadata fetch for '' @ i @
       '' (use API backend instead)'') \<in> set (snd acc) \<or>
     (i = p \<and> i \<noteq> [] \<and> local_metadata hs i = None \<and>
      (paperToMetadataMap (fst acc) i = None \<or> f))"
  by (auto simp: load_one_def split: option.splits)

lemma load_all_skip_log:
  "ConsoleLog (''[HomeService] Skipping Firebase metadata fetch for '' @ i @
       '' (use API backend instead)'') \<in> set (snd (foldl (load_one hs f) acc ids)) \<longleftrightarrow>
     ConsoleLog (''[HomeService] Skipping Firebase metadata fetch for '' @ i @
       '' (use API backend instead)'') \<in> set (snd acc) \<or>
     (i \<in> set ids \<and> i \<noteq> [] \<and> local_metadata hs i = None \<and>
      (paperToMetadataMap (fst acc) i = None \<or> f))"
proof (induction ids arbitrary: acc)
  case Nil
  then show ?case by simp
next
  case (Cons p ids)
  show ?case
    using Cons.IH [of "load_one hs f acc p"] load_one_skip_log [of i hs f acc p]
      load_one_map [of hs f acc p i]
    by (auto split: option.splits if_splits)
qed

section \<open>The registry of channels\<close>

text \<open>
  C1. After any sequence of \<^verbatim>\<open>connectDocumentSocket\<close> calls with one key, the socket of the
  last call should stay registered and open and every earlier socket should have been
  closed. Call after call that holds (\<open>connect_calls_last_wins\<close>). It stops holding once
  the browser delivers the close event of a replaced socket: \<^verbatim>\<open>ws.onclose\<close> deletes the
  key, which by then names the new socket. Here the socket of \<^verbatim>\<open>("X", "v1")\<close> opens, a
  second call replaces it, and its close event arrives: the registry is empty while the
  second socket is still connecting. A third call then finds nothing to close, and two
  sockets for the key are open at once. The browser of the trace accepts the URL
  \<^verbatim>\<open>ws://localhost:8001/ws/X/v1\<close> as it is written.
\<close>

theorem replaced_socket_close_event_unregisters_successor:
  "websockets (run
      (case_option (Inl SyntaxError) Inr \<circ> map_of [(''ws://localhost:8001/ws/X/v1'', ''ws://localhost:8001/ws/X/v1'')])
      Map.empty ''ws://localhost:8001'' init
      [Connect ''X'' ''v1'' 1 None, Deliver (EvOpen 0), Connect ''X'' ''v1'' 2 None,
       Deliver (EvClose 0)]) = [] \<and>
   map readyState (heap (run
      (case_option (Inl SyntaxError) Inr \<circ> map_of [(''ws://localhost:8001/ws/X/v1'', ''ws://localhost:8001/ws/X/v1'')])
      Map.empty ''ws://localhost:8001'' init
      [Connect ''X'' ''v1'' 1 None, Deliver (EvOpen 0), Connect ''X'' ''v1'' 2 None,
       Deliver (EvClose 0)])) = [CLOSED, CONNECTING] \<and>
   websockets (run
      (case_option (Inl SyntaxError) Inr \<circ> map_of [(''ws://localhost:8001/ws/X/v1'', ''ws://localhost:8001/ws/X/v1'')])
      Map.empty ''ws://localhost:8001'' init
      [Connect ''X'' ''v1'' 1 None, Deliver (EvOpen 0), Connect ''X'' ''v1'' 2 None,
       Deliver (EvClose 0), Connect ''X'' ''v1'' 3 None]) = [(''X_v1'', 2)] \<and>
   map readyState (heap (run
      (case_option (Inl SyntaxError) Inr \<circ> map_of [(''ws://localhost:8001/ws/X/v1'', ''ws://localhost:8001/ws/X/v1'')])
      Map.empty ''ws://localhost:8001'' init
      [Connect ''X'' ''v1'' 1 None, Deliver (EvOpen 0), Connect ''X'' ''v1'' 2 None,
       Deliver (EvClose 0), Connect ''X'' ''v1'' 3 None])) = [CLOSED, CONNECTING, CONNECTING]"
  by (simp add: run_def init_def connectDocumentSocket_def wsKey_def close_at_def close_ws_def
      Let_def)

text \<open>
  C8. \<^verbatim>\<open>closeAllWebSockets\<close> leaves the registry empty and every socket that was
  registered at the call no longer open; on an empty registry it changes nothing, and a
  second call in a row changes nothing more.
\<close>

theorem closeAllWebSockets_closes_and_clears:
  assumes "wf st"
  shows "websockets (closeAllWebSockets st) = [] \<and>
         (\<forall>(k, a) \<in> set (websockets st). \<not> is_open (heap (closeAllWebSockets st) ! a)) \<and>
         (websockets st = [] \<longrightarrow> closeAllWebSockets st = st) \<and>
         closeAllWebSockets (closeAllWebSockets st) = closeAllWebSockets st"
proof -
  have "\<not> is_open (heap (closeAllWebSockets st) ! a)" if "(k, a) \<in> set (websockets st)" for k a
  proof -
    have "a < length (heap st)"
      using assms that by (auto simp: wf_def list_all_iff)
    then show ?thesis
      using close_all_closes [OF that] by (simp add: closeAllWebSockets_def)
  qed
  then show ?thesis
    by (auto simp: closeAllWebSockets_def)
qed

text \<open>The same on a registry of two sockets, one of them open, and on the empty registry.\<close>

theorem closeAllWebSockets_closes_and_clears_witness:
  "wf (run
         (case_option (Inl SyntaxError) Inr \<circ> map_of [(''ws://h/ws/A/v1'', ''ws://h/ws/A/v1''), (''ws://h/ws/B/v2'', ''ws://h/ws/B/v2'')])
         Map.empty ''ws://h'' init
         [Connect ''A'' ''v1'' 1 None, Connect ''B'' ''v2'' 2 (Some 3), Deliver (EvOpen 0)]) \<and>
   websockets (run
         (case_option (Inl SyntaxError) Inr \<circ> map_of [(''ws://h/ws/A/v1'', ''ws://h/ws/A/v1''), (''ws://h/ws/B/v2'', ''ws://h/ws/B/v2'')])
         Map.empty ''ws://h'' init
         [Connect ''A'' ''v1'' 1 None, Connect ''B'' ''v2'' 2 (Some 3), Deliver (EvOpen 0)]) =
     [(''A_v1'', 0), (''B_v2'', 1)] \<and>
   websockets (closeAllWebSockets (run
         (case_option (Inl SyntaxError) Inr \<circ> map_of [(''ws://h/ws/A/v1'', ''ws://h/ws/A/v1''), (''ws://h/ws/B/v2'', ''ws://h/ws/B/v2'')])
         Map.empty ''ws://h'' init
         [Connect ''A'' ''v1'' 1 None, Connect ''B'' ''v2'' 2 (Some 3), Deliver (EvOpen 0)])) = [] \<and>
   \<not> is_open (heap (closeAllWebSockets (run
         (case_option (Inl SyntaxError) Inr \<circ> map_of [(''ws://h/ws/A/v1'', ''ws://h/ws/A/v1''), (''ws://h/ws/B/v2'', ''ws://h/ws/B/v2'')])
         Map.empty ''ws://h'' init
         [Connect ''A'' ''v1'' 1 None, Connect ''B'' ''v2'' 2 (Some 3), Deliver (EvOpen 0)])) ! 0) \<and>
   \<not> is_open (heap (closeAllWebSockets (run
         (case_option (Inl SyntaxError) Inr \<circ> map_of [(''ws://h/ws/A/v1'', ''ws://h/ws/A/v1''), (''ws://h/ws/B/v2'', ''ws://h/ws/B/v2'')])
         Map.empty ''ws://h'' init
         [Connect ''A'' ''v1'' 1 None, Connect ''B'' ''v2'' 2 (Some 3), Deliver (EvOpen 0)])) ! 1) \<and>
   closeAllWebSockets (closeAllWebSockets init) = closeAllWebSockets init \<and>
   closeAllWebSockets init = init"
proof -
  let ?st = "run
         (case_option (Inl SyntaxError) Inr \<circ> map_of [(''ws://h/ws/A/v1'', ''ws://h/ws/A/v1''), (''ws://h/ws/B/v2'', ''ws://h/ws/B/v2'')])
         Map.empty ''ws://h'' init
         [Connect ''A'' ''v1'' 1 None, Connect ''B'' ''v2'' 2 (Some 3), Deliver (EvOpen 0)]"
  have w: "wf ?st" by (rule wf_run [OF wf_init])
  have r: "websockets ?st = [(''A_v1'', 0), (''B_v2'', 1)]"
    by (simp add: run_def init_def connectDocumentSocket_def wsKey_def Let_def)
  show ?thesis
    using w r closeAllWebSockets_closes_and_clears [OF w]
      closeAllWebSockets_closes_and_clears [OF wf_init]
    by (simp add: init_def)
qed

section \<open>The message handler of a channel\<close>

text \<open>
  C2. A frame that \<^verbatim>\<open>JSON.parse\<close> rejects leaves the registry and the socket as they
  were: the handler neither closes the channel nor removes it. Whatever further frames
  follow, a later frame of the same channel that parses to a value other than
  \<^verbatim>\<open>null\<close> (every envelope object does) is handed to the channel's \<^verbatim>\<open>onUpdate\<close>.
\<close>

theorem malformed_frame_keeps_channel:
  assumes "a < length (heap st)" and "parse bad = None"
    and "parse good = Some m" and "\<not> nullish m"
  shows "websockets (deliver parse st (EvMessage a bad)) = websockets st \<and>
         heap (deliver parse st (EvMessage a bad)) = heap st \<and>
         out (deliver parse
                (foldl (deliver parse) (deliver parse st (EvMessage a bad)) (map (EvMessage a) later))
                (EvMessage a good)) =
           out (foldl (deliver parse) (deliver parse st (EvMessage a bad)) (map (EvMessage a) later)) @
           [ConsoleLog (''[WebSocket] Message received for '' @
              for_paper (ws_arxivId (heap st ! a)) (ws_version (heap st ! a)) @ '':''),
            ConsoleLog ''[WebSocket] Parsed message:'',
            CallOnUpdate (ws_onUpdate (heap st ! a)) (js_or (js_prop m ''data'') m)]"
proof -
  let ?st1 = "deliver parse st (EvMessage a bad)"
  let ?st2 = "foldl (deliver parse) ?st1 (map (EvMessage a) later)"
  have h1: "heap ?st1 = heap st" and w1: "websockets ?st1 = websockets st"
    by simp_all
  have h2: "heap ?st2 = heap st"
    using deliver_messages_frame [of parse ?st1 a later] h1 by simp
  show ?thesis
    using assms h2 w1 h1 by (simp add: onmessage_def)
qed

text \<open>
  A channel gets the broken frame \<^verbatim>\<open>{oops\<close> and then an envelope: the envelope's data
  reaches \<^verbatim>\<open>onUpdate\<close>.
\<close>

theorem malformed_frame_keeps_channel_witness:
  \<open>(0::nat) < length [\<lparr>url = ''ws://h/ws/X/v1'', readyState = OPEN, ws_arxivId = ''X'',
                       ws_version = ''v1'', ws_onUpdate = 1, ws_onError = Some 2\<rparr>] \<and>
   map_of [(''{"data":{"n":1}}'', JObject [(''data'', JObject [(''n'', JNumber (Num 1))])])]
     ''{oops'' = None \<and>
   map_of [(''{"data":{"n":1}}'', JObject [(''data'', JObject [(''n'', JNumber (Num 1))])])]
     ''{"data":{"n":1}}'' = Some (JObject [(''data'', JObject [(''n'', JNumber (Num 1))])]) \<and>
   out (run (case_option (Inl SyntaxError) Inr \<circ> map_of [])
          (map_of [(''{"data":{"n":1}}'', JObject [(''data'', JObject [(''n'', JNumber (Num 1))])])])
          ''ws://h''
          \<lparr>websockets = [(''X_v1'', 0)],
           heap = [\<lparr>url = ''ws://h/ws/X/v1'', readyState = OPEN, ws_arxivId = ''X'',
                    ws_version = ''v1'', ws_onUpdate = 1, ws_onError = Some 2\<rparr>],
           out = []\<rparr>
          [Deliver (EvMessage 0 ''{oops''), Deliver (EvMessage 0 ''{"data":{"n":1}}'')]) =
     [ConsoleLog ''[WebSocket] Message received for X vv1:'',
      ConsoleError ''[WebSocket] Failed to parse message for X vv1:'',
      ConsoleLog ''[WebSocket] Message received for X vv1:'',
      ConsoleLog ''[WebSocket] Parsed message:'',
      CallOnUpdate 1 (JObject [(''n'', JNumber (Num 1))])]\<close>
  using malformed_frame_keeps_channel
    [of 0 "\<lparr>websockets = [(''X_v1'', 0)],
           heap = [\<lparr>url = ''ws://h/ws/X/v1'', readyState = OPEN, ws_arxivId = ''X'',
                    ws_version = ''v1'', ws_onUpdate = 1, ws_onError = Some 2\<rparr>],
           out = []\<rparr>"
        "map_of [(''{\"data\":{\"n\":1}}'', JObject [(''data'', JObject [(''n'', JNumber (Num 1))])])]"
        "''{oops''" "''{\"data\":{\"n\":1}}''" "JObject [(''data'', JObject [(''n'', JNumber (Num 1))])]" "[]"]
  by (simp add: run_def onmessage_def nullish_def js_or_def for_paper_def)




text \<open>
  C4, as the claim states it: an envelope whose \<^verbatim>\<open>paper_id\<close> and \<^verbatim>\<open>version\<close> differ from
  the channel's key should not reach \<^verbatim>\<open>onUpdate\<close>. The channel of \<^verbatim>\<open>("X", "v1")\<close> gets an
  envelope for \<^verbatim>\<open>("Y", "v2")\<close>, and its data is handed to \<^verbatim>\<open>onUpdate\<close>.
\<close>

theorem mismatched_envelope_reaches_onUpdate:
  \<open>out (deliver
          (map_of [(''{"paper_id":"Y","version":"v2","type":"data","data":{"n":1}}'',
                    JObject [(''paper_id'', JString ''Y''), (''version'', JString ''v2''),
                             (''type'', JString ''data''),
                             (''data'', JObject [(''n'', JNumber (Num 1))])])])
          \<lparr>websockets = [(''X_v1'', 0)],
           heap = [\<lparr>url = ''ws://h/ws/X/v1'', readyState = OPEN, ws_arxivId = ''X'',
                    ws_version = ''v1'', ws_onUpdate = 1, ws_onError = Some 2\<rparr>],
           out = []\<rparr>
          (EvMessage 0 ''{"paper_id":"Y","version":"v2","type":"data","data":{"n":1}}'')) =
     [ConsoleLog ''[WebSocket] Message received for X vv1:'',
      ConsoleLog ''[WebSocket] Parsed message:'',
      CallOnUpdate 1 (JObject [(''n'', JNumber (Num 1))])]\<close>
  by (simp add: onmessage_def for_paper_def nullish_def js_or_def)

text \<open>
  C4, amended. The handler never compares the envelope with the channel's key.
  \<^verbatim>\<open>onUpdate\<close> is called exactly when the frame parses to a value other than \<^verbatim>\<open>null\<close>,
  with \<^verbatim>\<open>message.data\<close> when that is truthy and with the whole message otherwise,
  whatever \<^verbatim>\<open>paper_id\<close> and \<^verbatim>\<open>version\<close> the envelope carries.
\<close>

theorem onUpdate_iff_parsed_non_null:
  "CallOnUpdate cb v \<in> set (onmessage parse w raw) \<longleftrightarrow>
     (\<exists>m. parse raw = Some m \<and> \<not> nullish m \<and> cb = ws_onUpdate w \<and>
          v = js_or (js_prop m ''data'') m)"
  by (auto simp: onmessage_def split: option.splits)

text \<open>
  The amended C4 on an envelope for another paper (its data is delivered) and on the
  frame \<^verbatim>\<open>null\<close> (nothing is delivered).
\<close>

theorem onUpdate_iff_parsed_non_null_witness:
  \<open>CallOnUpdate 1 (JObject [(''n'', JNumber (Num 1))]) \<in>
     set (onmessage
            (map_of [(''{"paper_id":"Y","version":"v2","data":{"n":1}}'',
                      JObject [(''paper_id'', JString ''Y''), (''version'', JString ''v2''),
                               (''data'', JObject [(''n'', JNumber (Num 1))])])])
            \<lparr>url = ''ws://h/ws/X/v1'', readyState = OPEN, ws_arxivId = ''X'',
             ws_version = ''v1'', ws_onUpdate = 1, ws_onError = None\<rparr>
            ''{"paper_id":"Y","version":"v2","data":{"n":1}}'') \<and>
   CallOnUpdate 1 JNull \<notin>
     set (onmessage (map_of [(''null'', JNull)])
            \<lparr>url = ''ws://h/ws/X/v1'', readyState = OPEN, ws_arxivId = ''X'',
             ws_version = ''v1'', ws_onUpdate = 1, ws_onError = None\<rparr>
            ''null'')\<close>
  using onUpdate_iff_parsed_non_null
    [of 1 "JObject [(''n'', JNumber (Num 1))]"
        "map_of [(''{\"paper_id\":\"Y\",\"version\":\"v2\",\"data\":{\"n\":1}}'',
                      JObject [(''paper_id'', JString ''Y''), (''version'', JString ''v2''),
                               (''data'', JObject [(''n'', JNumber (Num 1))])])]"
        "\<lparr>url = ''ws://h/ws/X/v1'', readyState = OPEN, ws_arxivId = ''X'',
             ws_version = ''v1'', ws_onUpdate = 1, ws_onError = None\<rparr>"
        "''{\"paper_id\":\"Y\",\"version\":\"v2\",\"data\":{\"n\":1}}''"]
    onUpdate_iff_parsed_non_null
    [of 1 JNull "map_of [(''null'', JNull)]"
        "\<lparr>url = ''ws://h/ws/X/v1'', readyState = OPEN, ws_arxivId = ''X'',
             ws_version = ''v1'', ws_onUpdate = 1, ws_onError = None\<rparr>"
        "''null''"]
  by (simp add: nullish_def js_or_def)

text \<open>
  C9. When the frame parses to an envelope whose \<^verbatim>\<open>data\<close> is absent or falsy,
  \<^verbatim>\<open>onUpdate\<close> gets the whole parsed envelope.
\<close>

theorem falsy_data_passes_whole_envelope:
  assumes "a < length (heap st)" and "parse raw = Some m" and "\<not> nullish m"
    and "\<not> truthy (js_prop m ''data'')"
  shows "out (deliver parse st (EvMessage a raw)) =
           out st @
           [ConsoleLog (''[WebSocket] Message received for '' @
              for_paper (ws_arxivId (heap st ! a)) (ws_version (heap st ! a)) @ '':''),
            ConsoleLog ''[WebSocket] Parsed message:'',
            CallOnUpdate (ws_onUpdate (heap st ! a)) m]"
  using assms by (simp add: onmessage_def js_or_def)

text \<open>
  An envelope with \<^verbatim>\<open>data: null\<close> reaches \<^verbatim>\<open>onUpdate\<close> whole; an envelope with no
  \<^verbatim>\<open>data\<close> field has a falsy \<^verbatim>\<open>data\<close> as well.
\<close>

theorem falsy_data_passes_whole_envelope_witness:
  \<open>(0::nat) < length [\<lparr>url = ''ws://h/ws/X/v1'', readyState = OPEN, ws_arxivId = ''X'',
                       ws_version = ''v1'', ws_onUpdate = 1, ws_onError = None\<rparr>] \<and>
   \<not> nullish (JObject [(''paper_id'', JString ''X''), (''version'', JString ''v1''),
                       (''type'', JString ''status''), (''data'', JNull)]) \<and>
   \<not> truthy (js_prop (JObject [(''paper_id'', JString ''X''), (''version'', JString ''v1''),
                       (''type'', JString ''status''), (''data'', JNull)]) ''data'') \<and>
   \<not> truthy (js_prop (JObject [(''paper_id'', JString ''X''), (''version'', JString ''v1''),
                       (''type'', JString ''status'')]) ''data'') \<and>
   out (deliver
          (map_of [(''{"paper_id":"X","version":"v1","type":"status","data":null}'',
                    JObject [(''paper_id'', JString ''X''), (''version'', JString ''v1''),
                             (''type'', JString ''status''), (''data'', JNull)])])
          \<lparr>websockets = [(''X_v1'', 0)],
           heap = [\<lparr>url = ''ws://h/ws/X/v1'', readyState = OPEN, ws_arxivId = ''X'',
                    ws_version = ''v1'', ws_onUpdate = 1, ws_onError = None\<rparr>],
           out = []\<rparr>
          (EvMessage 0 ''{"paper_id":"X","version":"v1","type":"status","data":null}'')) =
     [ConsoleLog ''[WebSocket] Message received for X vv1:'',
      ConsoleLog ''[WebSocket] Parsed message:'',
      CallOnUpdate 1 (JObject [(''paper_id'', JString ''X''), (''version'', JString ''v1''),
                               (''type'', JString ''status''), (''data'', JNull)])]\<close>
  using falsy_data_passes_whole_envelope
    [of 0 "\<lparr>websockets = [(''X_v1'', 0)],
           heap = [\<lparr>url = ''ws://h/ws/X/v1'', readyState = OPEN, ws_arxivId = ''X'',
                    ws_version = ''v1'', ws_onUpdate = 1, ws_onError = None\<rparr>],
           out = []\<rparr>"
        "map_of [(''{\"paper_id\":\"X\",\"version\":\"v1\",\"type\":\"status\",\"data\":null}'',
                    JObject [(''paper_id'', JString ''X''), (''version'', JString ''v1''),
                             (''type'', JString ''status''), (''data'', JNull)])]"
        "''{\"paper_id\":\"X\",\"version\":\"v1\",\"type\":\"status\",\"data\":null}''"
        "JObject [(''paper_id'', JString ''X''), (''version'', JString ''v1''),
                             (''type'', JString ''status''), (''data'', JNull)]"]
  by (simp add: nullish_def for_paper_def)

section \<open>The entry points and their arguments\<close>

text \<open>
  C6, as the claim states it: an empty id or version should be rejected. With both
  empty, and a browser that accepts the URL \<^verbatim>\<open>ws://localhost:8001/ws//\<close> as it is
  written, \<^verbatim>\<open>connectDocumentSocket\<close> returns a socket to that URL and registers it under
  the key \<^verbatim>\<open>_\<close>, and \<^verbatim>\<open>requestPaperImport\<close> hands the empty id to \<^verbatim>\<open>fetch\<close>.
\<close>

theorem empty_id_and_version_are_accepted:
  "fst (connectDocumentSocket
          (case_option (Inl SyntaxError) Inr \<circ> map_of [(''ws://localhost:8001/ws//'', ''ws://localhost:8001/ws//'')])
          ''ws://localhost:8001'' init '''' '''' 1 None) = Inr 0 \<and>
   websockets (snd (connectDocumentSocket
          (case_option (Inl SyntaxError) Inr \<circ> map_of [(''ws://localhost:8001/ws//'', ''ws://localhost:8001/ws//'')])
          ''ws://localhost:8001'' init '''' '''' 1 None)) = [(''_'', 0)] \<and>
   heap (snd (connectDocumentSocket
          (case_option (Inl SyntaxError) Inr \<circ> map_of [(''ws://localhost:8001/ws//'', ''ws://localhost:8001/ws//'')])
          ''ws://localhost:8001'' init '''' '''' 1 None)) =
     [\<lparr>url = ''ws://localhost:8001/ws//'', readyState = CONNECTING, ws_arxivId = '''',
       ws_version = '''', ws_onUpdate = 1, ws_onError = None\<rparr>] \<and>
   fst (requestPaperImport ''http://localhost:8001'' (Inl \<circ> FetchFailed \<circ> req_url) '''') =
     [ConsoleLog ''[API] Requesting paper import for '',
      ConsoleLog ''[API] POST /api/papers/import'',
      Fetch \<lparr>req_method = ''POST'', req_url = ''http://localhost:8001/api/papers/import'',
             req_headers = [(''Content-Type'', ''application/json'')],
             req_body = Some (JObject [(''arxiv_id'', JString '''')])\<rparr>,
      ConsoleError ''[API] POST /api/papers/import error:'']"
  by (simp add: connectDocumentSocket_def init_def wsKey_def Let_def requestPaperImport_def
      fetchApi_def await_json_def for_paper_def)

text \<open>
  C6, amended. No entry point checks that its arguments are non-empty. For every id and
  version, empty ones included, \<^verbatim>\<open>connectDocumentSocket\<close> hands
  \<^verbatim>\<open>{wsUrl}/ws/{id}/{version}\<close> to the WebSocket constructor: when the constructor makes
  a socket, the socket is returned and registered under \<^verbatim>\<open>{id}_{version}\<close>; when it
  throws, the exception is the result, no socket is made and the registry is as it
  was. \<^verbatim>\<open>requestPaperImport\<close>, \<^verbatim>\<open>getImportStatus\<close> and \<^verbatim>\<open>getDocument\<close> call \<^verbatim>\<open>fetch\<close>
  with the id and version as given; the callable hands its id to \<^verbatim>\<open>requestPaperImport\<close>.
\<close>

theorem entry_points_take_any_id_and_version:
  "(new_WebSocket (wsBase @ ''/ws/'' @ arxivId @ ''/'' @ version) = Inr parsed \<longrightarrow>
      fst (connectDocumentSocket new_WebSocket wsBase st arxivId version u e) =
        Inr (length (heap st)) \<and>
      map_of (websockets (snd (connectDocumentSocket new_WebSocket wsBase st arxivId version u e)))
        (wsKey arxivId version) = Some (length (heap st)) \<and>
      length (heap (snd (connectDocumentSocket new_WebSocket wsBase st arxivId version u e))) =
        Suc (length (heap st)) \<and>
      heap (snd (connectDocumentSocket new_WebSocket wsBase st arxivId version u e)) !
          length (heap st) =
        \<lparr>url = parsed, readyState = CONNECTING, ws_arxivId = arxivId, ws_version = version,
         ws_onUpdate = u, ws_onError = e\<rparr>) \<and>
   (new_WebSocket (wsBase @ ''/ws/'' @ arxivId @ ''/'' @ version) = Inl err \<longrightarrow>
      fst (connectDocumentSocket new_WebSocket wsBase st arxivId version u e) = Inl err \<and>
      websockets (snd (connectDocumentSocket new_WebSocket wsBase st arxivId version u e)) =
        websockets st \<and>
      length (heap (snd (connectDocumentSocket new_WebSocket wsBase st arxivId version u e))) =
        length (heap st)) \<and>
   Fetch \<lparr>req_method = ''POST'', req_url = base @ ''/api/papers/import'',
          req_headers = [(''Content-Type'', ''application/json'')],
          req_body = Some (JObject [(''arxiv_id'', JString arxivId)])\<rparr>
     \<in> set (fst (requestPaperImport base fetch arxivId)) \<and>
   Fetch \<lparr>req_method = ''GET'', req_url = base @ ''/api/papers/status/'' @ arxivId @ ''/'' @ version,
          req_headers = [(''Content-Type'', ''application/json'')], req_body = None\<rparr>
     \<in> set (fst (getImportStatus base fetch arxivId version)) \<and>
   Fetch \<lparr>req_method = ''GET'', req_url = base @ ''/api/documents/'' @ arxivId @ ''/'' @ version,
          req_headers = [(''Content-Type'', ''application/json'')], req_body = None\<rparr>
     \<in> set (fst (getDocument base fetch arxivId version)) \<and>
   requestArxivDocImportCallable base fetch arxivId = requestPaperImport base fetch arxivId"
proof -
  let ?c = "connectDocumentSocket new_WebSocket wsBase st arxivId version u e"
  have 1: "fst ?c = Inr (length (heap st)) \<and>
      map_of (websockets (snd ?c)) (wsKey arxivId version) = Some (length (heap st)) \<and>
      length (heap (snd ?c)) = Suc (length (heap st)) \<and>
      heap (snd ?c) ! length (heap st) =
        \<lparr>url = parsed, readyState = CONNECTING, ws_arxivId = arxivId, ws_version = version,
         ws_onUpdate = u, ws_onError = e\<rparr>"
    if "new_WebSocket (wsBase @ ''/ws/'' @ arxivId @ ''/'' @ version) = Inr parsed"
    using that
    by (simp add: connect_result connect_websockets connect_heap update_conv' nth_append
        split: option.splits)
  have 2: "fst ?c = Inl err \<and> websockets (snd ?c) = websockets st \<and>
      length (heap (snd ?c)) = length (heap st)"
    if "new_WebSocket (wsBase @ ''/ws/'' @ arxivId @ ''/'' @ version) = Inl err"
    using that
    by (simp add: connect_result connect_websockets connect_heap split: option.splits)
  have 3: "Fetch \<lparr>req_method = ''POST'', req_url = base @ ''/api/papers/import'',
          req_headers = [(''Content-Type'', ''application/json'')],
          req_body = Some (JObject [(''arxiv_id'', JString arxivId)])\<rparr>
     \<in> set (fst (requestPaperImport base fetch arxivId))"
    using fetchApi_issues [of "Some ''POST''" base "''/api/papers/import''"
        "Some (JObject [(''arxiv_id'', JString arxivId)])" fetch]
    by (simp add: requestPaperImport_def Let_def await_json_keeps)
  have 4: "Fetch \<lparr>req_method = ''GET'', req_url = base @ ''/api/papers/status/'' @ arxivId @ ''/'' @ version,
          req_headers = [(''Content-Type'', ''application/json'')], req_body = None\<rparr>
     \<in> set (fst (getImportStatus base fetch arxivId version))"
    using fetchApi_issues [of None base "''/api/papers/status/'' @ arxivId @ ''/'' @ version" None fetch]
    by (simp add: getImportStatus_def await_json_keeps)
  have 5: "Fetch \<lparr>req_method = ''GET'', req_url = base @ ''/api/documents/'' @ arxivId @ ''/'' @ version,
          req_headers = [(''Content-Type'', ''application/json'')], req_body = None\<rparr>
     \<in> set (fst (getDocument base fetch arxivId version))"
    using fetchApi_issues [of None base "''/api/documents/'' @ arxivId @ ''/'' @ version" None fetch]
    by (simp add: getDocument_def Let_def await_json_keeps)
  show ?thesis
    using 1 2 3 4 5 by (simp add: requestArxivDocImportCallable_def)
qed

text \<open>
  The amended C6 with an empty id on a browser that accepts \<^verbatim>\<open>ws://h/ws//v1\<close>, with the
  id \<^verbatim>\<open>a#b\<close> on a browser that refuses the URL for its fragment, and the two requests
  with an empty version and with both empty.
\<close>

theorem entry_points_take_any_id_and_version_witness:
  "(case_option (Inl SyntaxError) Inr \<circ> map_of [(''ws://h/ws//v1'', ''ws://h/ws//v1'')]) ''ws://h/ws//v1'' = Inr ''ws://h/ws//v1'' \<and>
   map_of (websockets (snd (connectDocumentSocket
      (case_option (Inl SyntaxError) Inr \<circ> map_of [(''ws://h/ws//v1'', ''ws://h/ws//v1'')]) ''ws://h'' init '''' ''v1'' 1 None))) ''_v1'' = Some 0 \<and>
   (case_option (Inl SyntaxError) Inr \<circ> map_of [(''ws://h/ws//v1'', ''ws://h/ws//v1'')]) ''ws://h/ws/a#b/v1'' = Inl SyntaxError \<and>
   fst (connectDocumentSocket
      (case_option (Inl SyntaxError) Inr \<circ> map_of [(''ws://h/ws//v1'', ''ws://h/ws//v1'')]) ''ws://h'' init ''a#b'' ''v1'' 1 None) = Inl SyntaxError \<and>
   websockets (snd (connectDocumentSocket
      (case_option (Inl SyntaxError) Inr \<circ> map_of [(''ws://h/ws//v1'', ''ws://h/ws//v1'')]) ''ws://h'' init ''a#b'' ''v1'' 1 None)) = [] \<and>
   Fetch \<lparr>req_method = ''GET'', req_url = ''http://h/api/papers/status/2301.00001/'',
          req_headers = [(''Content-Type'', ''application/json'')], req_body = None\<rparr>
     \<in> set (fst (getImportStatus ''http://h'' (Inl \<circ> FetchFailed \<circ> req_url) ''2301.00001'' '''')) \<and>
   Fetch \<lparr>req_method = ''GET'', req_url = ''http://h/api/documents//'',
          req_headers = [(''Content-Type'', ''application/json'')], req_body = None\<rparr>
     \<in> set (fst (getDocument ''http://h'' (Inl \<circ> FetchFailed \<circ> req_url) '''' ''''))"
  using entry_points_take_any_id_and_version
      [of "(case_option (Inl SyntaxError) Inr \<circ> map_of [(''ws://h/ws//v1'', ''ws://h/ws//v1'')])" "''ws://h''" "''''" "''v1''" "''ws://h/ws//v1''" init 1 None SyntaxError
          "''http://h''" "Inl \<circ> FetchFailed \<circ> req_url"]
    entry_points_take_any_id_and_version
      [of "(case_option (Inl SyntaxError) Inr \<circ> map_of [(''ws://h/ws//v1'', ''ws://h/ws//v1'')])" "''ws://h''" "''a#b''" "''v1''" "''ws://h/ws//v1''" init 1 None SyntaxError
          "''http://h''" "Inl \<circ> FetchFailed \<circ> req_url"]
    entry_points_take_any_id_and_version
      [of "(case_option (Inl SyntaxError) Inr \<circ> map_of [(''ws://h/ws//v1'', ''ws://h/ws//v1'')])" "''ws://h''" "''2301.00001''" "''''" "''ws://h/ws//v1''" init 1 None SyntaxError
          "''http://h''" "Inl \<circ> FetchFailed \<circ> req_url"]
    entry_points_take_any_id_and_version
      [of "(case_option (Inl SyntaxError) Inr \<circ> map_of [(''ws://h/ws//v1'', ''ws://h/ws//v1'')])" "''ws://h''" "''''" "''''" "''ws://h/ws//v1''" init 1 None SyntaxError
          "''http://h''" "Inl \<circ> FetchFailed \<circ> req_url"]
  by (simp add: wsKey_def init_def)

section \<open>The metadata map of HomeService\<close>

text \<open>
  C5, as the claim states it: an id the local store lacks should be fetched from the
  backend and end up in the map, and an id the local store has should get the local
  metadata. For \<^verbatim>\<open>"P1"\<close>, unknown to the local history, \<^verbatim>\<open>loadMetadata\<close> logs that the
  fetch is skipped and leaves the map without an entry. For \<^verbatim>\<open>"P1"\<close> in the local
  history and already in the map, with \<^verbatim>\<open>forceReload\<close> off, the old entry stays and
  nothing is logged.
\<close>

theorem missing_metadata_is_not_fetched:
  "paperToMetadataMap
     (fst (loadMetadata \<lparr>getPaperHistory = [], getPaperData = map_of []\<rparr>
        \<lparr>collections = [], hasLoadedCollections = False, isLoadingCollections = False,
         paperToMetadataMap = map_of [], paperToFeaturedImageMap = map_of [],
         currentCollection = None, showUploadDialog = False\<rparr>
        [''P1''] False)) ''P1'' = None \<and>
   snd (loadMetadata \<lparr>getPaperHistory = [], getPaperData = map_of []\<rparr>
        \<lparr>collections = [], hasLoadedCollections = False, isLoadingCollections = False,
         paperToMetadataMap = map_of [], paperToFeaturedImageMap = map_of [],
         currentCollection = None, showUploadDialog = False\<rparr>
        [''P1''] False) =
     [ConsoleLog ''[HomeService] Skipping Firebase metadata fetch for P1 (use API backend instead)''] \<and>
   paperToMetadataMap
     (fst (loadMetadata
        \<lparr>getPaperHistory = [\<lparr>metadata = Some \<lparr>paperId = ''P1'', details = JNull\<rparr>\<rparr>],
         getPaperData = map_of [(''P1'', \<lparr>metadata = Some \<lparr>paperId = ''P1'', details = JNull\<rparr>\<rparr>)]\<rparr>
        \<lparr>collections = [], hasLoadedCollections = False, isLoadingCollections = False,
         paperToMetadataMap = map_of [(''P1'', \<lparr>paperId = ''P1'', details = JString ''old''\<rparr>)],
         paperToFeaturedImageMap = map_of [],
         currentCollection = None, showUploadDialog = False\<rparr>
        [''P1''] False)) ''P1'' = Some \<lparr>paperId = ''P1'', details = JString ''old''\<rparr> \<and>
   snd (loadMetadata
        \<lparr>getPaperHistory = [\<lparr>metadata = Some \<lparr>paperId = ''P1'', details = JNull\<rparr>\<rparr>],
         getPaperData = map_of [(''P1'', \<lparr>metadata = Some \<lparr>paperId = ''P1'', details = JNull\<rparr>\<rparr>)]\<rparr>
        \<lparr>collections = [], hasLoadedCollections = False, isLoadingCollections = False,
         paperToMetadataMap = map_of [(''P1'', \<lparr>paperId = ''P1'', details = JString ''old''\<rparr>)],
         paperToFeaturedImageMap = map_of [],
         currentCollection = None, showUploadDialog = False\<rparr>
        [''P1''] False) = []"
  by (simp add: loadMetadata_def load_one_def local_metadata_def)

text \<open>
  C5, amended. For a non-empty id among \<^verbatim>\<open>paperIds\<close>: when the local history has
  metadata for it, the map holds that metadata afterwards, unless the map already had
  an entry and \<^verbatim>\<open>forceReload\<close> is off (then the entry stays); when the local history has
  none, the entry of the id stays as it was. The line that the fetch for the id is
  skipped is logged exactly when the local history has no metadata for the id and the
  id is not one the map already had with \<^verbatim>\<open>forceReload\<close> off (such an id is passed over
  without a word). \<^verbatim>\<open>loadMetadata\<close> never calls \<^verbatim>\<open>fetch\<close>.
\<close>

theorem loadMetadata_reads_local_history_only:
  assumes "i \<in> set ids" and "i \<noteq> []"
  shows "paperToMetadataMap (fst (loadMetadata hs s ids f)) i =
           (case local_metadata hs i of
              Some m \<Rightarrow> if paperToMetadataMap s i = None \<or> f then Some m else paperToMetadataMap s i
            | None \<Rightarrow> paperToMetadataMap s i) \<and>
         (ConsoleLog (''[HomeService] Skipping Firebase metadata fetch for '' @ i @
              '' (use API backend instead)'') \<in> set (snd (loadMetadata hs s ids f)) \<longleftrightarrow>
            local_metadata hs i = None \<and> (paperToMetadataMap s i = None \<or> f)) \<and>
         Fetch r \<notin> set (snd (loadMetadata hs s ids f))"
  using assms load_all_map [of hs f "(s, [])" ids i] load_all_no_fetch [of r "(s, [])" hs f ids]
    load_all_skip_log [of i hs f "(s, [])" ids]
  by (auto simp: loadMetadata_def split: option.splits if_splits)

text \<open>
  The amended C5 on \<^verbatim>\<open>["P1", "P2"]\<close>, with \<^verbatim>\<open>"P1"\<close> in the local history and \<^verbatim>\<open>"P2"\<close> not:
  \<^verbatim>\<open>"P1"\<close> gets the local metadata, \<^verbatim>\<open>"P2"\<close> gets no entry and the skip is logged for it.
\<close>

theorem loadMetadata_reads_local_history_only_witness:
  "''P1'' \<in> set [''P1'', ''P2''] \<and> ''P1'' \<noteq> [] \<and> ''P2'' \<in> set [''P1'', ''P2''] \<and> ''P2'' \<noteq> [] \<and>
   paperToMetadataMap
     (fst (loadMetadata
        \<lparr>getPaperHistory = [\<lparr>metadata = Some \<lparr>paperId = ''P1'', details = JNull\<rparr>\<rparr>],
         getPaperData = map_of [(''P1'', \<lparr>metadata = Some \<lparr>paperId = ''P1'', details = JNull\<rparr>\<rparr>)]\<rparr>
        \<lparr>collections = [], hasLoadedCollections = False, isLoadingCollections = False,
         paperToMetadataMap = map_of [], paperToFeaturedImageMap = map_of [],
         currentCollection = None, showUploadDialog = False\<rparr>
        [''P1'', ''P2''] False)) ''P1'' = Some \<lparr>paperId = ''P1'', details = JNull\<rparr> \<and>
   paperToMetadataMap
     (fst (loadMetadata
        \<lparr>getPaperHistory = [\<lparr>metadata = Some \<lparr>paperId = ''P1'', details = JNull\<rparr>\<rparr>],
         getPaperData = map_of [(''P1'', \<lparr>metadata = Some \<lparr>paperId = ''P1'', details = JNull\<rparr>\<rparr>)]\<rparr>
        \<lparr>collections = [], hasLoadedCollections = False, isLoadingCollections = False,
         paperToMetadataMap = map_of [], paperToFeaturedImageMap = map_of [],
         currentCollection = None, showUploadDialog = False\<rparr>
        [''P1'', ''P2''] False)) ''P2'' = None \<and>
   ConsoleLog ''[HomeService] Skipping Firebase metadata fetch for P2 (use API backend instead)''
     \<in> set (snd (loadMetadata
        \<lparr>getPaperHistory = [\<lparr>metadata = Some \<lparr>paperId = ''P1'', details = JNull\<rparr>\<rparr>],
         getPaperData = map_of [(''P1'', \<lparr>metadata = Some \<lparr>paperId = ''P1'', details = JNull\<rparr>\<rparr>)]\<rparr>
        \<lparr>collections = [], hasLoadedCollections = False, isLoadingCollections = False,
         paperToMetadataMap = map_of [], paperToFeaturedImageMap = map_of [],
         currentCollection = None, showUploadDialog = False\<rparr>
        [''P1'', ''P2''] False)) \<and>
   ConsoleLog ''[HomeService] Skipping Firebase metadata fetch for P1 (use API backend instead)''
     \<notin> set (snd (loadMetadata
        \<lparr>getPaperHistory = [\<lparr>metadata = Some \<lparr>paperId = ''P1'', details = JNull\<rparr>\<rparr>],
         getPaperData = map_of [(''P1'', \<lparr>metadata = Some \<lparr>paperId = ''P1'', details = JNull\<rparr>\<rparr>)]\<rparr>
        \<lparr>collections = [], hasLoadedCollections = False, isLoadingCollections = False,
         paperToMetadataMap = map_of [], paperToFeaturedImageMap = map_of [],
         currentCollection = None, showUploadDialog = False\<rparr>
        [''P1'', ''P2''] False))"
  using loadMetadata_reads_local_history_only
      [of "''P1''" "[''P1'', ''P2'']"
        "\<lparr>getPaperHistory = [\<lparr>metadata = Some \<lparr>paperId = ''P1'', details = JNull\<rparr>\<rparr>],
         getPaperData = map_of [(''P1'', \<lparr>metadata = Some \<lparr>paperId = ''P1'', details = JNull\<rparr>\<rparr>)]\<rparr>"
        "\<lparr>collections = [], hasLoadedCollections = False, isLoadingCollections = False,
         paperToMetadataMap = map_of [], paperToFeaturedImageMap = map_of [],
         currentCollection = None, showUploadDialog = False\<rparr>" False]
    loadMetadata_reads_local_history_only
      [of "''P2''" "[''P1'', ''P2'']"
        "\<lparr>getPaperHistory = [\<lparr>metadata = Some \<lparr>paperId = ''P1'', details = JNull\<rparr>\<rparr>],
         getPaperData = map_of [(''P1'', \<lparr>metadata = Some \<lparr>paperId = ''P1'', details = JNull\<rparr>\<rparr>)]\<rparr>"
        "\<lparr>collections = [], hasLoadedCollections = False, isLoadingCollections = False,
         paperToMetadataMap = map_of [], paperToFeaturedImageMap = map_of [],
         currentCollection = None, showUploadDialog = False\<rparr>" False]
  by (simp add: local_metadata_def)

text \<open>
  C7. \<^verbatim>\<open>loadMetadata\<close> never stores an absent value and never removes an entry: an id
  with no local metadata keeps the entry it had (or none), an entry that was present
  is present afterwards, and every value in the map afterwards was there before or is
  the defined metadata of the local history. The local history is only read.
\<close>

theorem loadMetadata_never_poisons_cache:
  "(local_metadata hs i = None \<longrightarrow>
      paperToMetadataMap (fst (loadMetadata hs s ids f)) i = paperToMetadataMap s i) \<and>
   (paperToMetadataMap s i \<noteq> None \<longrightarrow> paperToMetadataMap (fst (loadMetadata hs s ids f)) i \<noteq> None) \<and>
   (paperToMetadataMap (fst (loadMetadata hs s ids f)) i = Some m \<longrightarrow>
      paperToMetadataMap s i = Some m \<or> local_metadata hs i = Some m)"
  using load_all_map [of hs f "(s, [])" ids i]
  by (auto simp: loadMetadata_def split: option.splits if_splits)

text \<open>
  With nothing in the local history and \<^verbatim>\<open>forceReload\<close> on, the cached \<^verbatim>\<open>"P2"\<close> stays
  and the unknown \<^verbatim>\<open>"P3"\<close> gets no entry.
\<close>

theorem loadMetadata_never_poisons_cache_witness:
  "local_metadata \<lparr>getPaperHistory = [], getPaperData = map_of []\<rparr> ''P2'' = None \<and>
   paperToMetadataMap
     (fst (loadMetadata \<lparr>getPaperHistory = [], getPaperData = map_of []\<rparr>
        \<lparr>collections = [], hasLoadedCollections = False, isLoadingCollections = False,
         paperToMetadataMap = map_of [(''P2'', \<lparr>paperId = ''P2'', details = JNull\<rparr>)],
         paperToFeaturedImageMap = map_of [],
         currentCollection = None, showUploadDialog = False\<rparr>
        [''P2'', ''P3''] True)) ''P2'' = Some \<lparr>paperId = ''P2'', details = JNull\<rparr> \<and>
   paperToMetadataMap
     (fst (loadMetadata \<lparr>getPaperHistory = [], getPaperData = map_of []\<rparr>
        \<lparr>collections = [], hasLoadedCollections = False, isLoadingCollections = False,
         paperToMetadataMap = map_of [(''P2'', \<lparr>paperId = ''P2'', details = JNull\<rparr>)],
         paperToFeaturedImageMap = map_of [],
         currentCollection = None, showUploadDialog = False\<rparr>
        [''P2'', ''P3''] True)) ''P3'' = None"
  using loadMetadata_never_poisons_cache
      [of "\<lparr>getPaperHistory = [], getPaperData = map_of []\<rparr>" "''P2''"
        "\<lparr>collections = [], hasLoadedCollections = False, isLoadingCollections = False,
         paperToMetadataMap = map_of [(''P2'', \<lparr>paperId = ''P2'', details = JNull\<rparr>)],
         paperToFeaturedImageMap = map_of [],
         currentCollection = None, showUploadDialog = False\<rparr>" "[''P2'', ''P3'']" True]
    loadMetadata_never_poisons_cache
      [of "\<lparr>getPaperHistory = [], getPaperData = map_of []\<rparr>" "''P3''"
        "\<lparr>collections = [], hasLoadedCollections = False, isLoadingCollections = False,
         paperToMetadataMap = map_of [(''P2'', \<lparr>paperId = ''P2'', details = JNull\<rparr>)],
         paperToFeaturedImageMap = map_of [],
         currentCollection = None, showUploadDialog = False\<rparr>" "[''P2'', ''P3'']" True]
  by (simp add: local_metadata_def)

text \<open>
  C10. After \<^verbatim>\<open>setCurrentCollection\<close>, whatever its argument, \<^verbatim>\<open>currentCollection\<close> is
  undefined and so is the getter \<^verbatim>\<open>currentCollectionId\<close>; the argument has no influence
  on the state or on the effects.
\<close>

theorem setCurrentCollection_ignores_its_argument:
  "currentCollection (fst (setCurrentCollection hs s cid)) = None \<and>
   currentCollectionId (fst (setCurrentCollection hs s cid)) = None \<and>
   setCurrentCollection hs s cid = setCurrentCollection hs s cid'"
  by (simp add: setCurrentCollection_def currentCollectionId_def loadMetadata_def
      load_all_current Let_def)

text \<open>
  A service that shows the collection \<^verbatim>\<open>c0\<close> is asked for \<^verbatim>\<open>c1\<close> and ends with none.
\<close>

theorem setCurrentCollection_ignores_its_argument_witness:
  "currentCollectionId
     (fst (setCurrentCollection \<lparr>getPaperHistory = [], getPaperData = map_of []\<rparr>
        \<lparr>collections = [], hasLoadedCollections = True, isLoadingCollections = False,
         paperToMetadataMap = map_of [], paperToFeaturedImageMap = map_of [],
         currentCollection = Some \<lparr>collectionId = ''c0'', paperIds = [''P1'']\<rparr>,
         showUploadDialog = False\<rparr>
        (Some ''c1''))) = None"
  by (rule setCurrentCollection_ignores_its_argument [THEN conjunct2, THEN conjunct1])

end
